theory Spec2Isabelle
  imports Complex_Main
begin

section \<open>Falcon 1 ascent notebook: data model\<close>

text \<open>
  The notebook \<^verbatim>\<open>scripts/falcon-1/falcon-1.ipynb\<close> drives a vessel over a remote
  connection. Python floats are idealised as real numbers: arithmetic is exact, and
  rounding, infinities and NaN are outside the model. A Python exception is a value
  of \<open>py_error\<close>; a fallible function returns \<open>py_error + 'a\<close>.

  A \<open>vessel\<close> is one snapshot of the remote object: every attribute the script reads
  during one call is taken from the same snapshot.
\<close>

datatype py_error = IndexError | ZeroDivisionError

datatype part = Part (tag: string) (part_mass: real) (children: "part list")

record vessel =
  mass :: real
  available_thrust :: real
  parts :: "part list"
  vertical_speed :: real
  pitch :: real
  mean_altitude :: real
  apoapsis_altitude :: real

text \<open>Python's \<^verbatim>\<open>a / b\<close> on floats raises \<^verbatim>\<open>ZeroDivisionError\<close> when \<open>b\<close> is zero.\<close>

definition truediv :: "real \<Rightarrow> real \<Rightarrow> py_error + real" where
  "truediv a b = (if b = 0 then Inl ZeroDivisionError else Inr (a / b))"

text \<open>Python's \<^verbatim>\<open>sum(xs)\<close>: start from 0 and add from the left.\<close>

definition py_sum :: "real list \<Rightarrow> real" where
  "py_sum xs = foldl (+) 0 xs"

text \<open>
  \<^verbatim>\<open>vessel.parts.with_tag(t)\<close> belongs to the kRPC client library: the parts of the
  vessel whose tag is \<open>t\<close>, in the vessel's part order.
\<close>

definition with_tag :: "part list \<Rightarrow> string \<Rightarrow> part list" where
  "with_tag ps t = filter (\<lambda>p. tag p = t) ps"

section \<open>Helper functions (cell 6)\<close>

text \<open>
  \<^verbatim>\<open>
  def find_payload_mass(vessel):
      payload_decoupler = vessel.parts.with_tag('payload_decoupler')[0]
      return sum([child.mass for child in payload_decoupler.children])/1000.0
  \<close>
\<close>

definition find_payload_mass :: "vessel \<Rightarrow> py_error + real" where
  "find_payload_mass v =
     (case with_tag (parts v) ''payload_decoupler'' of
        [] \<Rightarrow> Inl IndexError
      | payload_decoupler # _ \<Rightarrow>
          truediv (py_sum (map part_mass (children payload_decoupler))) 1000)"

text \<open>
  \<^verbatim>\<open>
  def calc_throttle_for_twr(target_twr, vessel):
      mass = vessel.mass
      weight = mass*g
      if vessel.available_thrust == 0.0:
          return 0.0
      else:
          throttle = target_twr*weight/vessel.available_thrust
          return min(1.0, throttle)
  \<close>
  The global \<open>g\<close> (surface gravity of Kerbin, read once in cell 4) is the first
  argument. \<open>calc_throttle_for_twr_run\<close> pairs the result with the divisions the call
  evaluates, each as (dividend, divisor), so that "no division happens" is a
  statement about the model.
\<close>

definition calc_throttle_for_twr_run ::
  "real \<Rightarrow> real \<Rightarrow> vessel \<Rightarrow> (real \<times> real) list \<times> (py_error + real)" where
  "calc_throttle_for_twr_run g target_twr v =
     (let m = mass v;
          weight = m * g
      in if available_thrust v = 0 then ([], Inr 0)
         else ([(target_twr * weight, available_thrust v)],
               case truediv (target_twr * weight) (available_thrust v) of
                 Inl e \<Rightarrow> Inl e
               | Inr throttle \<Rightarrow> Inr (min 1 throttle)))"

definition calc_throttle_for_twr :: "real \<Rightarrow> real \<Rightarrow> vessel \<Rightarrow> py_error + real" where
  "calc_throttle_for_twr g target_twr v = snd (calc_throttle_for_twr_run g target_twr v)"

definition calc_throttle_divisions :: "real \<Rightarrow> real \<Rightarrow> vessel \<Rightarrow> (real \<times> real) list" where
  "calc_throttle_divisions g target_twr v = fst (calc_throttle_for_twr_run g target_twr v)"

text \<open>
  \<^verbatim>\<open>calc_pitch_rate = lambda m: 0.0041*m**2 + 0.0259*m + 0.5801\<close> (cell 8).
\<close>

definition calc_pitch_rate :: "real \<Rightarrow> real" where
  "calc_pitch_rate m = 0.0041 * m ^ 2 + 0.0259 * m + 0.5801"

section \<open>Telemetry, effects and outcomes\<close>

text \<open>
  The script reads the vessel and the wall clock again and again while the game moves
  on. A \<open>sample\<close> is what one round of reads returns: the vessel's snapshot and the
  value of \<^verbatim>\<open>time.time()\<close>. The telemetry of a run is the list of samples in the
  order the script meets them. Every evaluation of a \<^verbatim>\<open>while\<close> condition looks at the
  head sample; a completed loop body moves on to the next sample; straight-line
  statements read the sample at hand.

  What the script does to the outside is recorded as a list of events, in program
  order. A run ends in an \<open>outcome\<close>: it raises, it returns, or it is still \<open>Running\<close>
  when the supplied telemetry is used up (a polling loop whose condition has not yet
  turned false).
\<close>

record sample =
  craft :: vessel
  clock :: real

datatype event =
    Sleep real
  | SetThrottle real
  | TargetPitchAndHeading real real
  | Engage
  | ActivateNextStage
  | Load string
  | Print string

datatype 'a outcome = Raises py_error | Running | Returns 'a

type_synonym 'a run = "event list \<times> 'a outcome"

definition returns :: "'a \<Rightarrow> 'a run" where
  "returns x = ([], Returns x)"

definition emit :: "event list \<Rightarrow> unit run" where
  "emit es = (es, Returns ())"

definition raise_or_return :: "py_error + 'a \<Rightarrow> 'a run" where
  "raise_or_return r = ([], case r of Inl e \<Rightarrow> Raises e | Inr x \<Rightarrow> Returns x)"

definition telemetry :: "sample list \<Rightarrow> sample run" where
  "telemetry ss = (case ss of [] \<Rightarrow> ([], Running) | s # _ \<Rightarrow> ([], Returns s))"

text \<open>Sequencing: the second part runs only when the first has returned.\<close>

definition and_then :: "'a run \<Rightarrow> ('a \<Rightarrow> 'b run) \<Rightarrow> 'b run" where
  "and_then m f =
     (case m of
        (es, Raises e) \<Rightarrow> (es, Raises e)
      | (es, Running) \<Rightarrow> (es, Running)
      | (es, Returns x) \<Rightarrow> (case f x of (es', r) \<Rightarrow> (es @ es', r)))"

text \<open>\<^verbatim>\<open>vessel.control.throttle = calc_throttle_for_twr(target_twr, vessel)\<close>\<close>

definition set_throttle :: "real \<Rightarrow> real \<Rightarrow> sample list \<Rightarrow> unit run" where
  "set_throttle g target_twr ss =
     and_then (telemetry ss) (\<lambda>s.
     and_then (raise_or_return (calc_throttle_for_twr g target_twr (craft s))) (\<lambda>throttle.
     emit [SetThrottle throttle]))"

section \<open>Ignition to MECO (cell 8)\<close>

text \<open>
  \<^verbatim>\<open>
  while vessel.flight(vessel.orbit.body.reference_frame).vertical_speed < 100.0:
      vessel.control.throttle = calc_throttle_for_twr(target_twr, vessel)
      time.sleep(0.1)
  \<close>
\<close>

fun vertical_speed_loop :: "real \<Rightarrow> real \<Rightarrow> sample list \<Rightarrow> sample list run" where
  "vertical_speed_loop g target_twr [] = ([], Running)"
| "vertical_speed_loop g target_twr (s # ss) =
     (if vertical_speed (craft s) < 100 then
        and_then (set_throttle g target_twr (s # ss)) (\<lambda>_.
        and_then (emit [Sleep 0.1]) (\<lambda>_.
        vertical_speed_loop g target_twr ss))
      else returns (s # ss))"

text \<open>
  \<^verbatim>\<open>
  while vessel.flight().pitch > 45.0:
      vessel.control.throttle = calc_throttle_for_twr(target_twr, vessel)
      target_pitch = 90.0 - (time.time() - pitch_start)*pitch_rate
      vessel.auto_pilot.target_pitch_and_heading(target_pitch, 90.0)
  \<close>
\<close>

fun pitch_over_loop ::
  "real \<Rightarrow> real \<Rightarrow> real \<Rightarrow> real \<Rightarrow> sample list \<Rightarrow> sample list run" where
  "pitch_over_loop g target_twr pitch_start pitch_rate [] = ([], Running)"
| "pitch_over_loop g target_twr pitch_start pitch_rate (s # ss) =
     (if pitch (craft s) > 45 then
        and_then (set_throttle g target_twr (s # ss)) (\<lambda>_.
        let target_pitch = 90 - (clock s - pitch_start) * pitch_rate in
        and_then (emit [TargetPitchAndHeading target_pitch 90]) (\<lambda>_.
        pitch_over_loop g target_twr pitch_start pitch_rate ss))
      else returns (s # ss))"

text \<open>
  \<^verbatim>\<open>
  while vessel.orbit.apoapsis_altitude < 30000:
      vessel.control.throttle = calc_throttle_for_twr(target_twr, vessel)
      vessel.auto_pilot.target_pitch_and_heading(45.0, 90.0)
  \<close>
\<close>

fun hold_pitch_loop :: "real \<Rightarrow> real \<Rightarrow> sample list \<Rightarrow> sample list run" where
  "hold_pitch_loop g target_twr [] = ([], Running)"
| "hold_pitch_loop g target_twr (s # ss) =
     (if apoapsis_altitude (craft s) < 30000 then
        and_then (set_throttle g target_twr (s # ss)) (\<lambda>_.
        and_then (emit [TargetPitchAndHeading 45 90]) (\<lambda>_.
        hold_pitch_loop g target_twr ss))
      else returns (s # ss))"

text \<open>
  The whole cell. It returns the telemetry that is left when the first stage has been
  dropped.
\<close>

definition ignition_to_meco :: "real \<Rightarrow> sample list \<Rightarrow> sample list run" where
  "ignition_to_meco g ss =
     and_then (emit [TargetPitchAndHeading 90 90, Engage, Sleep 1]) (\<lambda>_.
     and_then (set_throttle g 1.3 ss) (\<lambda>_.
     and_then (emit [ActivateNextStage]) (\<lambda>_.
     and_then (vertical_speed_loop g 1.3 ss) (\<lambda>ss1.
     and_then (set_throttle g 1.5 ss1) (\<lambda>_.
     and_then (telemetry ss1) (\<lambda>s1.
     and_then (raise_or_return (find_payload_mass (craft s1))) (\<lambda>payload_mass.
     let pitch_rate = calc_pitch_rate payload_mass;
         pitch_start = clock s1 in
     and_then (pitch_over_loop g 1.5 pitch_start pitch_rate ss1) (\<lambda>ss2.
     and_then (emit [Sleep 0.1]) (\<lambda>_.
     and_then (hold_pitch_loop g 1.5 ss2) (\<lambda>ss3.
     and_then (emit [Sleep 0.1, SetThrottle 0, ActivateNextStage, Sleep 0.1]) (\<lambda>_.
     returns ss3)))))))))))"

section \<open>MECO to SECO-1 (cell 10)\<close>

text \<open>
  \<^verbatim>\<open>
  while vessel.flight().pitch > 0.0:
      target_twr = 1.75
      vessel.control.throttle = calc_throttle_for_twr(target_twr, vessel)
      target_pitch = 45.0 - (time.time() - pitch_start)*pitch_rate
      vessel.auto_pilot.target_pitch_and_heading(target_pitch, 90.0)
  \<close>
\<close>

fun pitch_to_horizontal_loop ::
  "real \<Rightarrow> real \<Rightarrow> real \<Rightarrow> sample list \<Rightarrow> sample list run" where
  "pitch_to_horizontal_loop g pitch_start pitch_rate [] = ([], Running)"
| "pitch_to_horizontal_loop g pitch_start pitch_rate (s # ss) =
     (if pitch (craft s) > 0 then
        let target_twr = 1.75 in
        and_then (set_throttle g target_twr (s # ss)) (\<lambda>_.
        let target_pitch = 45 - (clock s - pitch_start) * pitch_rate in
        and_then (emit [TargetPitchAndHeading target_pitch 90]) (\<lambda>_.
        pitch_to_horizontal_loop g pitch_start pitch_rate ss))
      else returns (s # ss))"

text \<open>
  \<^verbatim>\<open>
  while vessel.orbit.apoapsis_altitude < 100000.0:
      target_twr = 1.75
      vessel.control.throttle = calc_throttle_for_twr(target_twr, vessel)
      vessel.auto_pilot.target_pitch_and_heading(0.0, 90.0)
  \<close>
\<close>

fun horizontal_burn_loop :: "real \<Rightarrow> sample list \<Rightarrow> sample list run" where
  "horizontal_burn_loop g [] = ([], Running)"
| "horizontal_burn_loop g (s # ss) =
     (if apoapsis_altitude (craft s) < 100000 then
        let target_twr = 1.75 in
        and_then (set_throttle g target_twr (s # ss)) (\<lambda>_.
        and_then (emit [TargetPitchAndHeading 0 90]) (\<lambda>_.
        horizontal_burn_loop g ss))
      else returns (s # ss))"

definition meco_to_seco1 :: "real \<Rightarrow> sample list \<Rightarrow> sample list run" where
  "meco_to_seco1 g ss =
     and_then (emit [ActivateNextStage]) (\<lambda>_.
     and_then (telemetry ss) (\<lambda>s0.
     let pitch_rate = 1.0;
         pitch_start = clock s0 in
     and_then (pitch_to_horizontal_loop g pitch_start pitch_rate ss) (\<lambda>ss1.
     and_then (emit [Sleep 0.1]) (\<lambda>_.
     and_then (horizontal_burn_loop g ss1) (\<lambda>ss2.
     and_then (emit [Sleep 0.1, SetThrottle 0]) (\<lambda>_.
     returns ss2))))))"

section \<open>The pitch-rate sweep (last cell)\<close>

text \<open>
  \<^verbatim>\<open>
  def find_ascent_altitude(pitch_rate):
      vessel.auto_pilot.target_pitch_and_heading(90.0, 90.0)
      vessel.auto_pilot.engage()
      time.sleep(1)
      target_twr = 1.3
      vessel.control.throttle = calc_throttle_for_twr(target_twr, vessel)
      vessel.control.activate_next_stage()
      while vessel.flight(vessel.orbit.body.reference_frame).vertical_speed < 100.0:
          vessel.control.throttle = calc_throttle_for_twr(target_twr, vessel)
          time.sleep(0.1)
      target_twr = 1.5
      vessel.control.throttle = calc_throttle_for_twr(target_twr, vessel)
      pitch_start = time.time()
      while vessel.flight().pitch > 45.0:
          vessel.control.throttle = calc_throttle_for_twr(target_twr, vessel)
          target_pitch = 90.0 - (time.time() - pitch_start)*pitch_rate
          vessel.auto_pilot.target_pitch_and_heading(target_pitch, 90.0)
      return vessel.flight().mean_altitude
  \<close>
  Its two loops are, word for word, the first two loops of cell 8. (The notebook keeps
  this cell, the function and the sweep below, as a markdown cell.)
\<close>

definition find_ascent_altitude :: "real \<Rightarrow> real \<Rightarrow> sample list \<Rightarrow> real run" where
  "find_ascent_altitude g pitch_rate ss =
     and_then (emit [TargetPitchAndHeading 90 90, Engage, Sleep 1]) (\<lambda>_.
     and_then (set_throttle g 1.3 ss) (\<lambda>_.
     and_then (emit [ActivateNextStage]) (\<lambda>_.
     and_then (vertical_speed_loop g 1.3 ss) (\<lambda>ss1.
     and_then (set_throttle g 1.5 ss1) (\<lambda>_.
     and_then (telemetry ss1) (\<lambda>s1.
     let pitch_start = clock s1 in
     and_then (pitch_over_loop g 1.5 pitch_start pitch_rate ss1) (\<lambda>ss2.
     and_then (telemetry ss2) (\<lambda>s2.
     returns (mean_altitude (craft s2))))))))))"

text \<open>
  Text files: a name is mapped to the file's contents. \<^verbatim>\<open>open(name, 'w')\<close> creates or
  truncates the file; \<^verbatim>\<open>f.write(data)\<close> puts \<open>data\<close> after what the file holds.
\<close>

type_synonym files = "string \<rightharpoonup> string"

definition open_w :: "string \<Rightarrow> files \<Rightarrow> files" where
  "open_w name fs = fs(name \<mapsto> [])"

definition file_write :: "string \<Rightarrow> string \<Rightarrow> files \<Rightarrow> files" where
  "file_write name data fs =
     fs(name \<mapsto> (case fs name of None \<Rightarrow> [] | Some old \<Rightarrow> old) @ data)"

text \<open>Python's \<^verbatim>\<open>str\<close> of a non-negative integer, as the f-strings use it.\<close>

fun str_nat :: "nat \<Rightarrow> string" where
  "str_nat n =
     (if n < 10 then [''0123456789'' ! n]
      else str_nat (n div 10) @ [''0123456789'' ! (n mod 10)])"

declare str_nat.simps [simp del]

text \<open>
  \<^verbatim>\<open>
  with open(f'{save}_{i%2}.txt', 'w') as f:
      for asc in ascent_altitudes:
          f.write(f'{asc}\n')
  \<close>
  How Python prints a float (\<^verbatim>\<open>f'{asc}'\<close>) is the language's business: it is the
  parameter \<open>fmt\<close>.
\<close>

fun write_lines :: "(real \<Rightarrow> string) \<Rightarrow> string \<Rightarrow> real list \<Rightarrow> files \<Rightarrow> files" where
  "write_lines fmt name [] fs = fs"
| "write_lines fmt name (asc # rest) fs =
     write_lines fmt name rest (file_write name (fmt asc @ [CHR 0x0A]) fs)"

definition write_altitudes ::
  "(real \<Rightarrow> string) \<Rightarrow> string \<Rightarrow> nat \<Rightarrow> real list \<Rightarrow> files \<Rightarrow> files" where
  "write_altitudes fmt save i ascent_altitudes fs =
     (let name = save @ ''_'' @ str_nat (i mod 2) @ ''.txt''
      in write_lines fmt name ascent_altitudes (open_w name fs))"

text \<open>
  \<^verbatim>\<open>
  saves = ['pad_125', 'pad_125', 'pad_000', 'pad_000']
  for i, save in enumerate(saves):
      conn.space_center.load(save)
      vessel = conn.space_center.active_vessel
      pitch_rates = [0.5, 0.6, 0.7, 0.8, 0.9, 1.0]
      ascent_altitudes = []
      for pitch_rate in pitch_rates:
          conn.space_center.load(save)
          asc_alt = find_ascent_altitude(pitch_rate)
          ascent_altitudes.append(asc_alt)
      with open(f'{save}_{i%2}.txt', 'w') as f:
          for asc in ascent_altitudes:
              f.write(f'{asc}\n')
      print(f'Completed {i+1} of 6')
  \<close>
  Loading a save restarts the flight: \<open>flight pitch_rate\<close> is the telemetry the ascent
  flown at \<open>pitch_rate\<close> meets after the load, and \<open>flights i\<close> is that of the \<open>i\<close>-th
  pass of the outer loop.
\<close>

definition saves :: "string list" where
  "saves = [''pad_125'', ''pad_125'', ''pad_000'', ''pad_000'']"

definition pitch_rates :: "real list" where
  "pitch_rates = [0.5, 0.6, 0.7, 0.8, 0.9, 1.0]"

fun ascents ::
  "real \<Rightarrow> (real \<Rightarrow> sample list) \<Rightarrow> string \<Rightarrow> real list \<Rightarrow> real list \<Rightarrow> real list run" where
  "ascents g flight save [] ascent_altitudes = returns ascent_altitudes"
| "ascents g flight save (pitch_rate # rest) ascent_altitudes =
     and_then (emit [Load save]) (\<lambda>_.
     and_then (find_ascent_altitude g pitch_rate (flight pitch_rate)) (\<lambda>asc_alt.
     ascents g flight save rest (ascent_altitudes @ [asc_alt])))"

text \<open>
  A file that a pass has written stays written, whatever becomes of the passes after
  it: the sweep hands back the files next to its events and its outcome.
\<close>

fun sweep_from ::
  "real \<Rightarrow> (real \<Rightarrow> string) \<Rightarrow> (nat \<Rightarrow> real \<Rightarrow> sample list) \<Rightarrow> nat \<Rightarrow> string list \<Rightarrow>
   files \<Rightarrow> event list \<times> files \<times> unit outcome" where
  "sweep_from g fmt flights i [] fs = ([], fs, Returns ())"
| "sweep_from g fmt flights i (save # rest) fs =
     (case and_then (emit [Load save]) (\<lambda>_. ascents g (flights i) save pitch_rates []) of
        (es, Raises e) \<Rightarrow> (es, fs, Raises e)
      | (es, Running) \<Rightarrow> (es, fs, Running)
      | (es, Returns ascent_altitudes) \<Rightarrow>
          (let fs' = write_altitudes fmt save i ascent_altitudes fs;
               printed = Print (''Completed '' @ str_nat (i + 1) @ '' of 6'')
           in case sweep_from g fmt flights (i + 1) rest fs' of
                (es', fs'', r) \<Rightarrow> (es @ printed # es', fs'', r)))"

definition sweep ::
  "real \<Rightarrow> (real \<Rightarrow> string) \<Rightarrow> (nat \<Rightarrow> real \<Rightarrow> sample list) \<Rightarrow> files \<Rightarrow>
   event list \<times> files \<times> unit outcome" where
  "sweep g fmt flights fs = sweep_from g fmt flights 0 saves fs"

section \<open>Notions used in the statements\<close>

text \<open>The sleeps and the commanded pitches of a run, in order.\<close>

fun sleeps :: "event list \<Rightarrow> real list" where
  "sleeps [] = []"
| "sleeps (Sleep d # es) = d # sleeps es"
| "sleeps (_ # es) = sleeps es"

fun target_pitches :: "event list \<Rightarrow> real list" where
  "target_pitches [] = []"
| "target_pitches (TargetPitchAndHeading p h # es) = p # target_pitches es"
| "target_pitches (_ # es) = target_pitches es"

text \<open>
  The throttle a call of \<open>calc_throttle_for_twr\<close> hands back (the call never raises,
  see \<open>calc_throttle_cmd\<close> below).
\<close>

definition throttle_cmd :: "real \<Rightarrow> real \<Rightarrow> vessel \<Rightarrow> real" where
  "throttle_cmd g target_twr v =
     (case calc_throttle_for_twr g target_twr v of Inr throttle \<Rightarrow> throttle | Inl _ \<Rightarrow> 0)"

text \<open>
  How a polling loop ends on the telemetry that its condition has not consumed:
  with nothing left it is still polling, otherwise it has returned.
\<close>

definition polled :: "sample list \<Rightarrow> sample list outcome" where
  "polled ss = (case ss of [] \<Rightarrow> Running | _ # _ \<Rightarrow> Returns ss)"

text \<open>
  The sample at which an ascent of \<open>find_ascent_altitude\<close> ends: the first one with a
  vertical speed of at least 100 m/s starts the pitch-over, and from there on the
  first one with a pitch of at most 45 degrees ends it.
\<close>

definition ascent_end :: "sample list \<Rightarrow> sample option" where
  "ascent_end ss =
     (case dropWhile (\<lambda>s. pitch (craft s) > 45)
             (dropWhile (\<lambda>s. vertical_speed (craft s) < 100) ss) of
        [] \<Rightarrow> None
      | s # _ \<Rightarrow> Some s)"

text \<open>One line per sample: its mean altitude as Python prints it, and a line feed.\<close>

definition log_lines :: "(real \<Rightarrow> string) \<Rightarrow> sample list \<Rightarrow> string" where
  "log_lines fmt ss = concat (map (\<lambda>s. fmt (mean_altitude (craft s)) @ [CHR 0x0A]) ss)"

text \<open>
  Telemetry for the examples: a vessel of mass 10 with an available thrust of 200 and a
  payload of 130 kg on its payload decoupler, seen at clock \<open>t\<close> with the given vertical
  speed, pitch, mean altitude and apoapsis altitude.
\<close>

definition example_parts :: "part list" where
  "example_parts =
     [Part ''engine'' 500 [],
      Part ''payload_decoupler'' 50 [Part ''probe'' 100 [], Part ''antenna'' 30 []]]"

definition example_sample :: "real \<Rightarrow> real \<Rightarrow> real \<Rightarrow> real \<Rightarrow> real \<Rightarrow> sample" where
  "example_sample t vs p alt apo =
     \<lparr>craft = \<lparr>mass = 10, available_thrust = 200, parts = example_parts,
                vertical_speed = vs, pitch = p, mean_altitude = alt,
                apoapsis_altitude = apo\<rparr>,
      clock = t\<rparr>"

text \<open>
  How Python prints a float that is a whole number between 0 and \<open>10^16\<close>: its
  decimal digits and \<open>.0\<close>.
\<close>

definition example_fmt :: "real \<Rightarrow> string" where
  "example_fmt a = str_nat (nat \<lfloor>a\<rfloor>) @ ''.0''"

text \<open>
  An ascent of pass \<open>i\<close> flown at \<open>pitch_rate\<close>: one sample below 100 m/s, two with a
  pitch above 45 degrees, and the end of the pitch-over at a mean altitude that
  depends on the pass and on the pitch rate, with the apoapsis at 28000 m.
\<close>

definition example_flight :: "nat \<Rightarrow> real \<Rightarrow> sample list" where
  "example_flight i pitch_rate =
     [example_sample 0 0 90 80 80,
      example_sample 20 100 90 1000 2000,
      example_sample 40 300 70 8000 15000,
      example_sample 65 400 45 (10000 + 10000 * pitch_rate + 100 * real i) 28000]"

text \<open>The same, but the ascents of passes 2 and 3 never bring the pitch down to 45.\<close>

definition stalled_flight :: "nat \<Rightarrow> real \<Rightarrow> sample list" where
  "stalled_flight i pitch_rate =
     (if i < 2 then example_flight i pitch_rate
      else [example_sample 0 0 90 80 80, example_sample 20 100 90 1000 2000])"

section \<open>Properties of the helper functions\<close>

lemma calc_throttle_zero_thrust:
  "available_thrust v = 0 \<Longrightarrow> calc_throttle_for_twr g tw v = Inr 0"
  by (simp add: calc_throttle_for_twr_def calc_throttle_for_twr_run_def Let_def)

lemma calc_throttle_nonzero_thrust:
  "available_thrust v \<noteq> 0 \<Longrightarrow>
   calc_throttle_for_twr g tw v = Inr (min 1 (tw * (mass v * g) / available_thrust v))"
  by (simp add: calc_throttle_for_twr_def calc_throttle_for_twr_run_def truediv_def Let_def)

lemma calc_throttle_never_raises: "\<exists>th. calc_throttle_for_twr g tw v = Inr th"
  by (cases "available_thrust v = 0")
     (simp_all add: calc_throttle_zero_thrust calc_throttle_nonzero_thrust)

lemma py_sum_foldl: "foldl (+) a xs = a + sum_list xs" for a :: real
  by (induction xs arbitrary: a) simp_all

lemma py_sum_sum_list: "py_sum xs = sum_list xs"
  by (simp add: py_sum_def py_sum_foldl)

lemma calc_throttle_divisions_nonzero:
  "(a, b) \<in> set (calc_throttle_divisions g tw v) \<Longrightarrow> b \<noteq> 0"
  by (auto simp add: calc_throttle_divisions_def calc_throttle_for_twr_run_def Let_def
           split: if_splits)

text \<open>
  C1. With a strictly positive available thrust, \<open>calc_throttle_for_twr\<close> returns
  \<open>min(1.0, target_twr * mass * g / available_thrust)\<close>.
\<close>

theorem calc_throttle_for_twr_positive_thrust:
  "0 < available_thrust v \<Longrightarrow>
   calc_throttle_for_twr g target_twr v =
     Inr (min 1 (target_twr * mass v * g / available_thrust v))"
  by (simp add: calc_throttle_nonzero_thrust mult.assoc)

theorem calc_throttle_for_twr_positive_thrust_witness:
  "0 < available_thrust \<lparr>mass = 10, available_thrust = 200, parts = [], vertical_speed = 0,
        pitch = 90, mean_altitude = 0, apoapsis_altitude = 0\<rparr> \<and>
   calc_throttle_for_twr 9.81 1.3
     \<lparr>mass = 10, available_thrust = 200, parts = [], vertical_speed = 0,
      pitch = 90, mean_altitude = 0, apoapsis_altitude = 0\<rparr> = Inr 0.63765"
  using calc_throttle_for_twr_positive_thrust
    [of "\<lparr>mass = 10, available_thrust = 200, parts = [], vertical_speed = 0,
          pitch = 90, mean_altitude = 0, apoapsis_altitude = 0\<rparr>" "9.81" "1.3"]
  by simp

text \<open>
  C2, as stated (zero is returned, and nothing is divided, whenever the available
  thrust is not strictly positive), fails at a negative available thrust: the guard
  compares with \<open>0.0\<close> only, so the division runs and its clamped quotient is returned.
\<close>

theorem calc_throttle_negative_thrust_counterexample:
  "available_thrust \<lparr>mass = 1, available_thrust = - 1, parts = [], vertical_speed = 0,
        pitch = 90, mean_altitude = 0, apoapsis_altitude = 0\<rparr> \<le> 0 \<and>
   calc_throttle_for_twr 1 1
     \<lparr>mass = 1, available_thrust = - 1, parts = [], vertical_speed = 0,
      pitch = 90, mean_altitude = 0, apoapsis_altitude = 0\<rparr> = Inr (- 1) \<and>
   calc_throttle_divisions 1 1
     \<lparr>mass = 1, available_thrust = - 1, parts = [], vertical_speed = 0,
      pitch = 90, mean_altitude = 0, apoapsis_altitude = 0\<rparr> = [(1, - 1)]"
  by (simp add: calc_throttle_for_twr_def calc_throttle_divisions_def
        calc_throttle_for_twr_run_def truediv_def)

text \<open>
  C2, amended. When the available thrust is exactly zero, \<open>calc_throttle_for_twr\<close>
  returns \<open>0.0\<close> and evaluates no division.
\<close>

theorem calc_throttle_for_twr_zero_thrust:
  "available_thrust v = 0 \<Longrightarrow>
   calc_throttle_for_twr g target_twr v = Inr 0 \<and>
   calc_throttle_divisions g target_twr v = []"
  by (simp add: calc_throttle_for_twr_def calc_throttle_divisions_def
        calc_throttle_for_twr_run_def Let_def)

theorem calc_throttle_for_twr_zero_thrust_witness:
  "available_thrust \<lparr>mass = 10, available_thrust = 0, parts = [], vertical_speed = 0,
        pitch = 90, mean_altitude = 0, apoapsis_altitude = 0\<rparr> = 0 \<and>
   calc_throttle_for_twr 9.81 1.3
     \<lparr>mass = 10, available_thrust = 0, parts = [], vertical_speed = 0,
      pitch = 90, mean_altitude = 0, apoapsis_altitude = 0\<rparr> = Inr 0 \<and>
   calc_throttle_divisions 9.81 1.3
     \<lparr>mass = 10, available_thrust = 0, parts = [], vertical_speed = 0,
      pitch = 90, mean_altitude = 0, apoapsis_altitude = 0\<rparr> = []"
  using calc_throttle_for_twr_zero_thrust
    [of "\<lparr>mass = 10, available_thrust = 0, parts = [], vertical_speed = 0,
          pitch = 90, mean_altitude = 0, apoapsis_altitude = 0\<rparr>" "9.81" "1.3"]
  by simp

text \<open>
  C3. For a payload mass \<open>m\<close> in tonnes, the pitch rate is
  \<open>0.0041*m^2 + 0.0259*m + 0.5801\<close> degrees per second.
\<close>

theorem calc_pitch_rate_formula:
  "calc_pitch_rate m = 0.0041 * m\<^sup>2 + 0.0259 * m + 0.5801"
  by (simp add: calc_pitch_rate_def)

text \<open>
  C8. For non-negative target TWR, mass, gravity and available thrust, the throttle
  returned by \<open>calc_throttle_for_twr\<close> lies in the closed interval from 0 to 1.
\<close>

theorem calc_throttle_for_twr_in_unit_interval:
  assumes "0 \<le> target_twr" and "0 \<le> mass v" and "0 \<le> g" and "0 \<le> available_thrust v"
  shows "\<exists>throttle. calc_throttle_for_twr g target_twr v = Inr throttle \<and>
           0 \<le> throttle \<and> throttle \<le> 1"
proof (cases "available_thrust v = 0")
  case True
  then show ?thesis by (simp add: calc_throttle_zero_thrust)
next
  case False
  with assms have "0 < available_thrust v" by simp
  moreover from assms have "0 \<le> target_twr * (mass v * g)" by simp
  ultimately have "0 \<le> target_twr * (mass v * g) / available_thrust v" by simp
  with False show ?thesis by (simp add: calc_throttle_nonzero_thrust)
qed

theorem calc_throttle_for_twr_in_unit_interval_witness:
  "\<exists>throttle. calc_throttle_for_twr 9.81 1.3
      \<lparr>mass = 10, available_thrust = 200, parts = [], vertical_speed = 0,
       pitch = 90, mean_altitude = 0, apoapsis_altitude = 0\<rparr> = Inr throttle \<and>
     0 \<le> throttle \<and> throttle \<le> 1"
  using calc_throttle_for_twr_in_unit_interval
    [of "1.3" "\<lparr>mass = 10, available_thrust = 200, parts = [], vertical_speed = 0,
          pitch = 90, mean_altitude = 0, apoapsis_altitude = 0\<rparr>" "9.81"]
  by simp

text \<open>
  C9. For fixed positive mass, gravity and available thrust, \<open>calc_throttle_for_twr\<close>
  is monotone non-decreasing in the target TWR.
\<close>

theorem calc_throttle_for_twr_mono:
  assumes "0 < mass v" and "0 < g" and "0 < available_thrust v" and "twr1 \<le> twr2"
  shows "\<exists>t1 t2. calc_throttle_for_twr g twr1 v = Inr t1 \<and>
           calc_throttle_for_twr g twr2 v = Inr t2 \<and> t1 \<le> t2"
proof -
  from assms have "0 \<le> mass v * g" by simp
  with assms have "twr1 * (mass v * g) \<le> twr2 * (mass v * g)"
    by (simp add: mult_right_mono)
  with assms have "twr1 * (mass v * g) / available_thrust v
      \<le> twr2 * (mass v * g) / available_thrust v"
    by (simp add: divide_right_mono)
  then have "min 1 (twr1 * (mass v * g) / available_thrust v)
      \<le> min 1 (twr2 * (mass v * g) / available_thrust v)"
    by (simp add: min_le_iff_disj)
  with assms show ?thesis by (simp add: calc_throttle_nonzero_thrust)
qed

theorem calc_throttle_for_twr_mono_witness:
  "\<exists>t1 t2. calc_throttle_for_twr 9.81 1.3
      \<lparr>mass = 10, available_thrust = 200, parts = [], vertical_speed = 0,
       pitch = 90, mean_altitude = 0, apoapsis_altitude = 0\<rparr> = Inr t1 \<and>
     calc_throttle_for_twr 9.81 1.5
      \<lparr>mass = 10, available_thrust = 200, parts = [], vertical_speed = 0,
       pitch = 90, mean_altitude = 0, apoapsis_altitude = 0\<rparr> = Inr t2 \<and> t1 \<le> t2"
  using calc_throttle_for_twr_mono
    [of "\<lparr>mass = 10, available_thrust = 200, parts = [], vertical_speed = 0,
          pitch = 90, mean_altitude = 0, apoapsis_altitude = 0\<rparr>" "9.81" "1.3" "1.5"]
  by simp

text \<open>
  C10. \<open>find_payload_mass\<close> returns the summed mass of the children of the first part
  tagged \<open>payload_decoupler\<close>, divided by 1000; when no part carries the tag, the
  index \<open>[0]\<close> raises \<open>IndexError\<close>.
\<close>

theorem find_payload_mass_first_tagged:
  "find_payload_mass v =
     (case List.find (\<lambda>p. tag p = ''payload_decoupler'') (parts v) of
        Some p \<Rightarrow> Inr (sum_list (map part_mass (children p)) / 1000)
      | None \<Rightarrow> Inl IndexError)"
proof -
  have "(case filter P ps of [] \<Rightarrow> a | p # _ \<Rightarrow> f p) =
        (case List.find P ps of None \<Rightarrow> a | Some p \<Rightarrow> f p)"
    for P :: "part \<Rightarrow> bool" and ps and a :: "py_error + real" and f
    by (induction ps) simp_all
  then show ?thesis
    by (simp add: find_payload_mass_def with_tag_def truediv_def py_sum_sum_list
          split: option.splits)
qed

text \<open>The notebook prints a payload mass of 0.13 t; so does the example vessel.\<close>

lemma find_payload_mass_example:
  "find_payload_mass (craft (example_sample 0 0 90 80 80)) = Inr 0.13"
  by (simp add: find_payload_mass_def with_tag_def example_sample_def example_parts_def
        truediv_def py_sum_def)

lemma find_payload_mass_no_decoupler_example:
  "find_payload_mass \<lparr>mass = 10, available_thrust = 200, parts = [Part ''engine'' 500 []],
      vertical_speed = 0, pitch = 90, mean_altitude = 80, apoapsis_altitude = 80\<rparr>
   = Inl IndexError"
  by (simp add: find_payload_mass_def with_tag_def)

lemma calc_pitch_rate_example: "calc_pitch_rate 0.13 = 0.58353629"
  by (simp add: calc_pitch_rate_def power2_eq_square)

section \<open>Sequencing and the polling loops\<close>

lemma calc_throttle_cmd: "calc_throttle_for_twr g tw v = Inr (throttle_cmd g tw v)"
  using calc_throttle_never_raises [of g tw v] by (auto simp add: throttle_cmd_def)

lemma set_throttle_Cons:
  "set_throttle g tw (s # ss) = ([SetThrottle (throttle_cmd g tw (craft s))], Returns ())"
  by (simp add: set_throttle_def telemetry_def and_then_def raise_or_return_def emit_def
        calc_throttle_cmd)

lemma and_then_emit: "and_then (emit es) f = (es @ fst (f ()), snd (f ()))"
  by (simp add: and_then_def emit_def split: prod.splits)

lemma and_then_unit_run:
  "and_then (es, Returns x) f = (es @ fst (f x), snd (f x))"
  by (simp add: and_then_def split: prod.splits)

lemma and_then_Running: "and_then (es, Running) f = (es, Running)"
  by (simp add: and_then_def)

lemma and_then_Raises: "and_then (es, Raises e) f = (es, Raises e)"
  by (simp add: and_then_def)

lemma snd_and_then:
  "snd (and_then m f) =
     (case snd m of Raises e \<Rightarrow> Raises e | Running \<Rightarrow> Running | Returns x \<Rightarrow> snd (f x))"
  by (cases m) (simp add: and_then_def split: outcome.splits prod.splits)

lemma polled_Nil: "polled [] = Running"
  by (simp add: polled_def)

lemma polled_Cons: "polled (s # ss) = Returns (s # ss)"
  by (simp add: polled_def)

lemma telemetry_Cons: "telemetry (s # ss) = ([], Returns s)"
  by (simp add: telemetry_def)

lemma raise_or_return_Inl: "raise_or_return (Inl e) = ([], Raises e)"
  by (simp add: raise_or_return_def)

lemma raise_or_return_Inr: "raise_or_return (Inr x) = ([], Returns x)"
  by (simp add: raise_or_return_def)

text \<open>
  Each loop, solved: one group of events per sample that satisfies the loop condition,
  and the loop returns with the first sample that does not.
\<close>

lemma vertical_speed_loop_eq:
  "vertical_speed_loop g tw ss =
     (concat (map (\<lambda>s. [SetThrottle (throttle_cmd g tw (craft s)), Sleep 0.1])
        (takeWhile (\<lambda>s. vertical_speed (craft s) < 100) ss)),
      polled (dropWhile (\<lambda>s. vertical_speed (craft s) < 100) ss))"
  by (induction ss)
     (simp_all add: set_throttle_Cons and_then_unit_run and_then_emit returns_def polled_def)

lemma pitch_over_loop_eq:
  "pitch_over_loop g tw p0 rate ss =
     (concat (map (\<lambda>s. [SetThrottle (throttle_cmd g tw (craft s)),
                          TargetPitchAndHeading (90 - (clock s - p0) * rate) 90])
        (takeWhile (\<lambda>s. pitch (craft s) > 45) ss)),
      polled (dropWhile (\<lambda>s. pitch (craft s) > 45) ss))"
  by (induction ss)
     (simp_all add: set_throttle_Cons and_then_unit_run and_then_emit returns_def polled_def)

lemma hold_pitch_loop_eq:
  "hold_pitch_loop g tw ss =
     (concat (map (\<lambda>s. [SetThrottle (throttle_cmd g tw (craft s)),
                          TargetPitchAndHeading 45 90])
        (takeWhile (\<lambda>s. apoapsis_altitude (craft s) < 30000) ss)),
      polled (dropWhile (\<lambda>s. apoapsis_altitude (craft s) < 30000) ss))"
  by (induction ss)
     (simp_all add: set_throttle_Cons and_then_unit_run and_then_emit returns_def polled_def)

lemma pitch_to_horizontal_loop_eq:
  "pitch_to_horizontal_loop g p0 rate ss =
     (concat (map (\<lambda>s. [SetThrottle (throttle_cmd g 1.75 (craft s)),
                          TargetPitchAndHeading (45 - (clock s - p0) * rate) 90])
        (takeWhile (\<lambda>s. pitch (craft s) > 0) ss)),
      polled (dropWhile (\<lambda>s. pitch (craft s) > 0) ss))"
  by (induction ss)
     (simp_all add: set_throttle_Cons and_then_unit_run and_then_emit returns_def polled_def)

lemma horizontal_burn_loop_eq:
  "horizontal_burn_loop g ss =
     (concat (map (\<lambda>s. [SetThrottle (throttle_cmd g 1.75 (craft s)),
                          TargetPitchAndHeading 0 90])
        (takeWhile (\<lambda>s. apoapsis_altitude (craft s) < 100000) ss)),
      polled (dropWhile (\<lambda>s. apoapsis_altitude (craft s) < 100000) ss))"
  by (induction ss)
     (simp_all add: set_throttle_Cons and_then_unit_run and_then_emit returns_def polled_def)

lemma target_pitches_steps:
  "target_pitches (concat (map (\<lambda>s. [SetThrottle (a s), TargetPitchAndHeading (p s) (h s)]) ss))
     = map p ss"
  by (induction ss) simp_all

lemma sleeps_no_sleep_steps:
  "sleeps (concat (map (\<lambda>s. [SetThrottle (a s), TargetPitchAndHeading (p s) (h s)]) ss)) = []"
  by (induction ss) simp_all

lemma sleeps_sleep_steps:
  "sleeps (concat (map (\<lambda>s. [SetThrottle (a s), Sleep d]) ss)) = replicate (length ss) d"
  by (induction ss) simp_all

text \<open>
  The two cells, when they run to their end: the events they have issued. The clock
  value the pitch-over measures from is the one of the sample at which the loop starts,
  and the \<^verbatim>\<open>time.sleep(0.1)\<close> written after a loop runs once, when the loop is over.
\<close>

lemma ignition_to_meco_trace:
  assumes "snd (ignition_to_meco g ss) = Returns r"
  shows "\<exists>s0 ss0 s1 ss1 payload_mass.
     ss = s0 # ss0 \<and>
     dropWhile (\<lambda>s. vertical_speed (craft s) < 100) ss = s1 # ss1 \<and>
     find_payload_mass (craft s1) = Inr payload_mass \<and>
     fst (ignition_to_meco g ss) =
       [TargetPitchAndHeading 90 90, Engage, Sleep 1,
        SetThrottle (throttle_cmd g 1.3 (craft s0)), ActivateNextStage] @
       concat (map (\<lambda>s. [SetThrottle (throttle_cmd g 1.3 (craft s)), Sleep 0.1])
          (takeWhile (\<lambda>s. vertical_speed (craft s) < 100) ss)) @
       SetThrottle (throttle_cmd g 1.5 (craft s1)) #
       concat (map (\<lambda>s. [SetThrottle (throttle_cmd g 1.5 (craft s)),
                            TargetPitchAndHeading
                              (90 - (clock s - clock s1) * calc_pitch_rate payload_mass) 90])
          (takeWhile (\<lambda>s. pitch (craft s) > 45) (s1 # ss1))) @
       Sleep 0.1 #
       concat (map (\<lambda>s. [SetThrottle (throttle_cmd g 1.5 (craft s)),
                            TargetPitchAndHeading 45 90])
          (takeWhile (\<lambda>s. apoapsis_altitude (craft s) < 30000)
             (dropWhile (\<lambda>s. pitch (craft s) > 45) (s1 # ss1)))) @
       [Sleep 0.1, SetThrottle 0, ActivateNextStage, Sleep 0.1]"
proof (cases ss)
  case Nil
  with assms show ?thesis
    by (simp add: ignition_to_meco_def and_then_emit set_throttle_def telemetry_def
          and_then_Running)
next
  case (Cons s0 ss0)
  note start = and_then_emit set_throttle_Cons and_then_unit_run vertical_speed_loop_eq
  show ?thesis
  proof (cases "dropWhile (\<lambda>s. vertical_speed (craft s) < 100) ss")
    case Nil
    with assms Cons show ?thesis
      by (simp add: ignition_to_meco_def start polled_Nil and_then_Running)
  next
    case r1: (Cons s1 ss1)
    show ?thesis
    proof (cases "find_payload_mass (craft s1)")
      case (Inl e)
      with assms Cons r1 show ?thesis
        by (simp add: ignition_to_meco_def start polled_Cons telemetry_Cons
              raise_or_return_Inl and_then_Raises)
    next
      case (Inr payload_mass)
      note upto_pitch = start polled_Cons telemetry_Cons raise_or_return_Inr Let_def
        pitch_over_loop_eq
      show ?thesis
      proof (cases "dropWhile (\<lambda>s. pitch (craft s) > 45) (s1 # ss1)")
        case Nil
        with assms Cons r1 Inr show ?thesis
          by (simp add: ignition_to_meco_def upto_pitch polled_Nil and_then_Running)
      next
        case r2: (Cons s2 ss2)
        show ?thesis
        proof (cases "dropWhile (\<lambda>s. apoapsis_altitude (craft s) < 30000) (s2 # ss2)")
          case Nil
          with assms Cons r1 Inr r2 show ?thesis
            by (simp add: ignition_to_meco_def upto_pitch hold_pitch_loop_eq polled_Nil
                  and_then_Running)
        next
          case r3: (Cons s3 ss3)
          with Cons r1 Inr r2 show ?thesis
            by (simp add: ignition_to_meco_def upto_pitch hold_pitch_loop_eq returns_def)
        qed
      qed
    qed
  qed
qed

lemma meco_to_seco1_trace:
  assumes "snd (meco_to_seco1 g ss) = Returns r"
  shows "\<exists>s0 ss0. ss = s0 # ss0 \<and>
     fst (meco_to_seco1 g ss) =
       ActivateNextStage #
       concat (map (\<lambda>s. [SetThrottle (throttle_cmd g 1.75 (craft s)),
                            TargetPitchAndHeading (45 - (clock s - clock s0) * 1) 90])
          (takeWhile (\<lambda>s. pitch (craft s) > 0) ss)) @
       Sleep 0.1 #
       concat (map (\<lambda>s. [SetThrottle (throttle_cmd g 1.75 (craft s)),
                            TargetPitchAndHeading 0 90])
          (takeWhile (\<lambda>s. apoapsis_altitude (craft s) < 100000)
             (dropWhile (\<lambda>s. pitch (craft s) > 0) ss))) @
       [Sleep 0.1, SetThrottle 0]"
proof (cases ss)
  case Nil
  with assms show ?thesis
    by (simp add: meco_to_seco1_def and_then_emit telemetry_def and_then_Running)
next
  case (Cons s0 ss0)
  show ?thesis
  proof (cases "dropWhile (\<lambda>s. pitch (craft s) > 0) ss")
    case Nil
    with assms Cons show ?thesis
      by (simp add: meco_to_seco1_def and_then_emit telemetry_Cons and_then_unit_run Let_def
            pitch_to_horizontal_loop_eq polled_Nil and_then_Running)
  next
    case r1: (Cons s1 ss1)
    show ?thesis
    proof (cases "dropWhile (\<lambda>s. apoapsis_altitude (craft s) < 100000) (s1 # ss1)")
      case Nil
      with assms Cons r1 show ?thesis
        by (simp add: meco_to_seco1_def and_then_emit telemetry_Cons and_then_unit_run Let_def
              pitch_to_horizontal_loop_eq horizontal_burn_loop_eq polled_Nil polled_Cons
              and_then_Running)
    next
      case r2: (Cons s2 ss2)
      with Cons r1 show ?thesis
        by (simp add: meco_to_seco1_def and_then_emit telemetry_Cons and_then_unit_run Let_def
              pitch_to_horizontal_loop_eq horizontal_burn_loop_eq polled_Nil polled_Cons
              returns_def)
    qed
  qed
qed

text \<open>
  A run of cell 8 on five samples: one iteration of the vertical-speed loop, two of
  the pitch-over (at 0 s and at 20 s after its start) and one of the hold at 45 degrees.
\<close>

lemma ignition_to_meco_example:
  "ignition_to_meco 9.81
     [example_sample 0 0 90 80 80,
      example_sample 20 100 90 1000 2000,
      example_sample 40 300 70 8000 15000,
      example_sample 65 400 45 15000 28000,
      example_sample 70 450 45 17000 30000] =
   ([TargetPitchAndHeading 90 90, Engage, Sleep 1, SetThrottle 0.63765, ActivateNextStage,
     SetThrottle 0.63765, Sleep 0.1,
     SetThrottle 0.73575,
     SetThrottle 0.73575, TargetPitchAndHeading 90 90,
     SetThrottle 0.73575, TargetPitchAndHeading (90 - 20 * 0.58353629) 90,
     Sleep 0.1,
     SetThrottle 0.73575, TargetPitchAndHeading 45 90,
     Sleep 0.1, SetThrottle 0, ActivateNextStage, Sleep 0.1],
    Returns [example_sample 70 450 45 17000 30000])"
proof -
  have sel: "vertical_speed (craft (example_sample t vs p alt apo)) = vs"
    "pitch (craft (example_sample t vs p alt apo)) = p"
    "apoapsis_altitude (craft (example_sample t vs p alt apo)) = apo"
    "clock (example_sample t vs p alt apo) = t" for t vs p alt apo
    by (simp_all add: example_sample_def)
  have payload: "find_payload_mass (craft (example_sample t vs p alt apo)) = Inr 0.13"
    for t vs p alt apo
    by (simp add: find_payload_mass_def with_tag_def example_sample_def example_parts_def
          truediv_def py_sum_def)
  have rate: "calc_pitch_rate 0.13 = 0.58353629"
    by (simp add: calc_pitch_rate_def power2_eq_square)
  have throttle: "throttle_cmd 9.81 1.3 (craft (example_sample t vs p alt apo)) = 0.63765"
    "throttle_cmd 9.81 1.5 (craft (example_sample t vs p alt apo)) = 0.73575"
    for t vs p alt apo
    by (simp_all add: throttle_cmd_def calc_throttle_nonzero_thrust example_sample_def)
  from rate throttle show ?thesis
    by (simp add: ignition_to_meco_def and_then_emit set_throttle_Cons and_then_unit_run
          raise_or_return_Inr telemetry_Cons returns_def sel payload)
qed

text \<open>
  C4. In each pitch-over loop the target pitch commanded at clock reading \<open>c\<close>, that is
  after \<open>t = c - pitch_start\<close> seconds, is the start pitch minus \<open>t * pitch_rate\<close>:
  \<open>90 - t * pitch_rate\<close> in the first pitch-over (cell 8) and \<open>45 - t * pitch_rate\<close> in the
  second (cell 10), for every iteration the loop runs.
\<close>

theorem pitch_over_target_pitch:
  "target_pitches (fst (pitch_over_loop g target_twr pitch_start pitch_rate ss)) =
     map (\<lambda>s. 90 - (clock s - pitch_start) * pitch_rate)
       (takeWhile (\<lambda>s. pitch (craft s) > 45) ss) \<and>
   target_pitches (fst (pitch_to_horizontal_loop g pitch_start pitch_rate ss)) =
     map (\<lambda>s. 45 - (clock s - pitch_start) * pitch_rate)
       (takeWhile (\<lambda>s. pitch (craft s) > 0) ss)"
  by (simp add: pitch_over_loop_eq pitch_to_horizontal_loop_eq target_pitches_steps)

text \<open>
  C7, as stated (every polling loop sleeps between successive iterations), fails for the
  pitch-over loop of cell 8: on three samples with pitch 90, 80 and 45 it runs two
  iterations, commanding 90 and then 80 degrees, and issues no sleep at all.
\<close>

theorem pitch_over_loop_no_sleep_counterexample:
  "target_pitches (fst (pitch_over_loop 9.81 1.5 100 1
      [example_sample 100 120 90 1000 2000,
       example_sample 110 150 80 3000 6000,
       example_sample 145 400 45 15000 28000])) = [90, 80] \<and>
   sleeps (fst (pitch_over_loop 9.81 1.5 100 1
      [example_sample 100 120 90 1000 2000,
       example_sample 110 150 80 3000 6000,
       example_sample 145 400 45 15000 28000])) = []"
  by (simp add: example_sample_def set_throttle_Cons and_then_unit_run and_then_emit returns_def)

text \<open>
  C7, amended. Of the polling loops only the vertical-speed loop sleeps between
  successive iterations: one \<^verbatim>\<open>time.sleep(0.1)\<close> per iteration. The pitch-over and
  apoapsis loops of cells 8 and 10 issue no sleep.
\<close>

theorem polling_loop_sleeps:
  "sleeps (fst (vertical_speed_loop g target_twr ss)) =
     replicate (length (takeWhile (\<lambda>s. vertical_speed (craft s) < 100) ss)) 0.1 \<and>
   sleeps (fst (pitch_over_loop g target_twr pitch_start pitch_rate ss)) = [] \<and>
   sleeps (fst (hold_pitch_loop g target_twr ss)) = [] \<and>
   sleeps (fst (pitch_to_horizontal_loop g pitch_start pitch_rate ss)) = [] \<and>
   sleeps (fst (horizontal_burn_loop g ss)) = []"
  by (simp add: vertical_speed_loop_eq pitch_over_loop_eq hold_pitch_loop_eq
        pitch_to_horizontal_loop_eq horizontal_burn_loop_eq
        sleeps_no_sleep_steps sleeps_sleep_steps)

section \<open>The sweep and its log files\<close>

lemma find_ascent_altitude_outcome:
  "snd (find_ascent_altitude g pitch_rate ss) =
     (case ascent_end ss of
        None \<Rightarrow> Running
      | Some s \<Rightarrow> Returns (mean_altitude (craft s)))"
proof (cases ss)
  case Nil
  then show ?thesis
    by (simp add: find_ascent_altitude_def ascent_end_def and_then_emit set_throttle_def
          telemetry_def and_then_Running)
next
  case (Cons s0 ss0)
  show ?thesis
  proof (cases "dropWhile (\<lambda>s. vertical_speed (craft s) < 100) ss")
    case Nil
    with Cons show ?thesis
      by (simp add: find_ascent_altitude_def ascent_end_def and_then_emit set_throttle_Cons
            and_then_unit_run and_then_Running vertical_speed_loop_eq polled_Nil)
  next
    case ss1: (Cons s1 ss1')
    show ?thesis
    proof (cases "dropWhile (\<lambda>s. pitch (craft s) > 45) (s1 # ss1')")
      case Nil
      with Cons ss1 show ?thesis
        by (simp add: find_ascent_altitude_def ascent_end_def and_then_emit set_throttle_Cons
              and_then_unit_run and_then_Running vertical_speed_loop_eq pitch_over_loop_eq
              polled_Nil polled_Cons telemetry_Cons Let_def)
    next
      case ss2: (Cons s2 ss2')
      with Cons ss1 show ?thesis
        by (simp add: find_ascent_altitude_def ascent_end_def and_then_emit set_throttle_Cons
              and_then_unit_run and_then_Running vertical_speed_loop_eq pitch_over_loop_eq
              polled_Nil polled_Cons telemetry_Cons Let_def returns_def)
    qed
  qed
qed

lemma ascents_outcome:
  "snd (ascents g flight save rates acc) =
     (case those (map (\<lambda>r. ascent_end (flight r)) rates) of
        None \<Rightarrow> Running
      | Some ss \<Rightarrow> Returns (acc @ map (\<lambda>s. mean_altitude (craft s)) ss))"
proof (induction rates arbitrary: acc)
  case Nil
  show ?case by (simp add: returns_def)
next
  case (Cons r rates)
  show ?case
    by (simp add: snd_and_then emit_def find_ascent_altitude_outcome Cons.IH
          split: option.splits)
qed

lemma write_lines_appends:
  "fs name = Some old \<Longrightarrow>
   write_lines fmt name alts fs = fs(name \<mapsto> old @ concat (map (\<lambda>a. fmt a @ [CHR 0x0A]) alts))"
proof (induction alts arbitrary: fs old)
  case Nil
  then show ?case by (simp add: fun_upd_idem)
next
  case (Cons a alts)
  have "file_write name (fmt a @ [CHR 0x0A]) fs name = Some (old @ fmt a @ [CHR 0x0A])"
    using Cons.prems by (simp add: file_write_def)
  then have "write_lines fmt name alts (file_write name (fmt a @ [CHR 0x0A]) fs) =
      (file_write name (fmt a @ [CHR 0x0A]) fs)
        (name \<mapsto> (old @ fmt a @ [CHR 0x0A]) @ concat (map (\<lambda>a. fmt a @ [CHR 0x0A]) alts))"
    by (rule Cons.IH)
  then show ?case
    by (simp add: file_write_def)
qed

lemma write_altitudes_eq:
  "write_altitudes fmt save i alts fs =
     fs(save @ ''_'' @ str_nat (i mod 2) @ ''.txt'' \<mapsto>
          concat (map (\<lambda>a. fmt a @ [CHR 0x0A]) alts))"
  by (simp add: write_altitudes_def Let_def write_lines_appends [where old = "[]"] open_w_def)

lemma sweep_from_Cons_files:
  "snd (sweep_from g fmt flights i (save # rest) fs) =
     (case those (map (\<lambda>r. ascent_end (flights i r)) pitch_rates) of
        None \<Rightarrow> (fs, Running)
      | Some ss \<Rightarrow>
          snd (sweep_from g fmt flights (i + 1) rest
                 (fs(save @ ''_'' @ str_nat (i mod 2) @ ''.txt'' \<mapsto> log_lines fmt ss))))"
proof (cases "those (map (\<lambda>r. ascent_end (flights i r)) pitch_rates)")
  case None
  then have "snd (ascents g (flights i) save pitch_rates []) = Running"
    by (simp add: ascents_outcome)
  with None show ?thesis
    by (simp add: and_then_emit)
next
  case (Some ss)
  then have "snd (ascents g (flights i) save pitch_rates []) =
      Returns (map (\<lambda>s. mean_altitude (craft s)) ss)"
    by (simp add: ascents_outcome)
  with Some show ?thesis
    by (simp add: and_then_emit write_altitudes_eq log_lines_def Let_def comp_def
          split: prod.splits)
qed

lemma str_nat_0: "str_nat 0 = ''0''"
  by (simp add: str_nat.simps [of 0])

lemma str_nat_1: "str_nat (Suc 0) = ''1''"
  by (simp add: str_nat.simps [of "Suc 0"])

text \<open>
  The sweep, solved: the passes are run in turn for as long as all six ascents of a
  pass come to their end, and each such pass leaves its file.
\<close>

lemma sweep_files:
  "snd (sweep g fmt flights fs) =
     (case those (map (\<lambda>r. ascent_end (flights 0 r)) pitch_rates) of
        None \<Rightarrow> (fs, Running)
      | Some ss0 \<Rightarrow>
     (case those (map (\<lambda>r. ascent_end (flights 1 r)) pitch_rates) of
        None \<Rightarrow> (fs(''pad_125_0.txt'' \<mapsto> log_lines fmt ss0), Running)
      | Some ss1 \<Rightarrow>
     (case those (map (\<lambda>r. ascent_end (flights 2 r)) pitch_rates) of
        None \<Rightarrow> (fs(''pad_125_0.txt'' \<mapsto> log_lines fmt ss0,
                      ''pad_125_1.txt'' \<mapsto> log_lines fmt ss1), Running)
      | Some ss2 \<Rightarrow>
     (case those (map (\<lambda>r. ascent_end (flights 3 r)) pitch_rates) of
        None \<Rightarrow> (fs(''pad_125_0.txt'' \<mapsto> log_lines fmt ss0,
                      ''pad_125_1.txt'' \<mapsto> log_lines fmt ss1,
                      ''pad_000_0.txt'' \<mapsto> log_lines fmt ss2), Running)
      | Some ss3 \<Rightarrow>
          (fs(''pad_125_0.txt'' \<mapsto> log_lines fmt ss0,
              ''pad_125_1.txt'' \<mapsto> log_lines fmt ss1,
              ''pad_000_0.txt'' \<mapsto> log_lines fmt ss2,
              ''pad_000_1.txt'' \<mapsto> log_lines fmt ss3), Returns ())))))"
proof -
  have arith: "(0::nat) mod 2 = 0" "(0::nat) + 1 = 1" "(1::nat) mod 2 = 1" "(1::nat) + 1 = 2"
    "(2::nat) mod 2 = 0" "(2::nat) + 1 = 3" "(3::nat) mod 2 = 1"
    by simp_all
  have digits: "str_nat 0 = ''0''" "str_nat 1 = ''1''"
    by (simp_all add: str_nat_0 str_nat_1)
  show ?thesis
    unfolding sweep_def saves_def sweep_from_Cons_files arith digits
    by (simp split: option.splits)
qed

text \<open>The example flights: where their ascents end, and the lines they leave.\<close>

lemma example_flight_ends:
  "those (map (\<lambda>r. ascent_end (example_flight i r)) pitch_rates) =
     Some (map (\<lambda>r. example_sample 65 400 45 (10000 + 10000 * r + 100 * real i) 28000)
             pitch_rates)"
  by (simp add: ascent_end_def example_flight_def example_sample_def pitch_rates_def)

lemma stalled_flight_ends:
  "those (map (\<lambda>r. ascent_end (stalled_flight i r)) pitch_rates) =
     (if i < 2
      then Some (map (\<lambda>r. example_sample 65 400 45 (10000 + 10000 * r + 100 * real i) 28000)
                   pitch_rates)
      else None)"
  by (simp add: ascent_end_def stalled_flight_def example_flight_def example_sample_def
        pitch_rates_def)

lemma example_log_lines:
  "log_lines example_fmt
     (map (\<lambda>r. example_sample 65 400 45 (10000 + 10000 * r + 100 * real (0::nat)) 28000)
        pitch_rates) =
   ''15000.0\<newline>16000.0\<newline>17000.0\<newline>18000.0\<newline>19000.0\<newline>20000.0\<newline>''"
  "log_lines example_fmt
     (map (\<lambda>r. example_sample 65 400 45 (10000 + 10000 * r + 100 * real (1::nat)) 28000)
        pitch_rates) =
   ''15100.0\<newline>16100.0\<newline>17100.0\<newline>18100.0\<newline>19100.0\<newline>20100.0\<newline>''"
  "log_lines example_fmt
     (map (\<lambda>r. example_sample 65 400 45 (10000 + 10000 * r + 100 * real (2::nat)) 28000)
        pitch_rates) =
   ''15200.0\<newline>16200.0\<newline>17200.0\<newline>18200.0\<newline>19200.0\<newline>20200.0\<newline>''"
  "log_lines example_fmt
     (map (\<lambda>r. example_sample 65 400 45 (10000 + 10000 * r + 100 * real (3::nat)) 28000)
        pitch_rates) =
   ''15300.0\<newline>16300.0\<newline>17300.0\<newline>18300.0\<newline>19300.0\<newline>20300.0\<newline>''"
  by (simp_all add: log_lines_def example_sample_def pitch_rates_def example_fmt_def
        str_nat.simps)

text \<open>
  C5, as stated (\<open>find_ascent_altitude\<close> returns the apoapsis altitude), fails: for an
  ascent that ends at a mean altitude of 15000 m with an apoapsis altitude of 28000 m
  the function returns 15000.
\<close>

theorem find_ascent_altitude_not_apoapsis_counterexample:
  "snd (find_ascent_altitude 9.81 0.5
      [example_sample 0 0 90 80 80,
       example_sample 20 100 90 1000 2000,
       example_sample 65 400 45 15000 28000]) = Returns 15000 \<and>
   apoapsis_altitude (craft (example_sample 65 400 45 15000 28000)) = 28000"
  by (simp add: find_ascent_altitude_outcome ascent_end_def example_sample_def)

text \<open>
  C5, amended. For every run of the sweep, the value written to each output file for
  each pitch rate is the mean altitude of the vessel read at the end of that ascent's
  pitch-over: \<open>find_ascent_altitude\<close> returns that mean altitude once the telemetry
  reaches the end of the pitch-over, and every pass whose six ascents have returned
  leaves a file with these values, one per line in the order of the pitch rates,
  whether or not the passes after it come to an end.
\<close>

theorem sweep_logs_mean_altitude:
  "snd (find_ascent_altitude g pitch_rate ss) =
     (case ascent_end ss of
        None \<Rightarrow> Running
      | Some s \<Rightarrow> Returns (mean_altitude (craft s))) \<and>
   snd (sweep g fmt flights fs) =
     (case those (map (\<lambda>r. ascent_end (flights 0 r)) pitch_rates) of
        None \<Rightarrow> (fs, Running)
      | Some ss0 \<Rightarrow>
     (case those (map (\<lambda>r. ascent_end (flights 1 r)) pitch_rates) of
        None \<Rightarrow> (fs(''pad_125_0.txt'' \<mapsto> log_lines fmt ss0), Running)
      | Some ss1 \<Rightarrow>
     (case those (map (\<lambda>r. ascent_end (flights 2 r)) pitch_rates) of
        None \<Rightarrow> (fs(''pad_125_0.txt'' \<mapsto> log_lines fmt ss0,
                      ''pad_125_1.txt'' \<mapsto> log_lines fmt ss1), Running)
      | Some ss2 \<Rightarrow>
     (case those (map (\<lambda>r. ascent_end (flights 3 r)) pitch_rates) of
        None \<Rightarrow> (fs(''pad_125_0.txt'' \<mapsto> log_lines fmt ss0,
                      ''pad_125_1.txt'' \<mapsto> log_lines fmt ss1,
                      ''pad_000_0.txt'' \<mapsto> log_lines fmt ss2), Running)
      | Some ss3 \<Rightarrow>
          (fs(''pad_125_0.txt'' \<mapsto> log_lines fmt ss0,
              ''pad_125_1.txt'' \<mapsto> log_lines fmt ss1,
              ''pad_000_0.txt'' \<mapsto> log_lines fmt ss2,
              ''pad_000_1.txt'' \<mapsto> log_lines fmt ss3), Returns ())))))"
  using find_ascent_altitude_outcome sweep_files by (rule conjI)

text \<open>
  Two runs on the example flights, whose ascents iterate both loops and end at mean
  altitudes that differ from pass to pass, from pitch rate to pitch rate and from the
  apoapsis altitude of 28000 m. In the first all four passes come to their end. In the
  second the ascents of the third pass keep polling: the sweep is still running, and
  the files of the first two passes are there.
\<close>

theorem sweep_logs_mean_altitude_witness:
  "snd (sweep 9.81 example_fmt example_flight Map.empty) =
     ([''pad_125_0.txt'' \<mapsto>
         ''15000.0\<newline>16000.0\<newline>17000.0\<newline>18000.0\<newline>19000.0\<newline>20000.0\<newline>'',
       ''pad_125_1.txt'' \<mapsto>
         ''15100.0\<newline>16100.0\<newline>17100.0\<newline>18100.0\<newline>19100.0\<newline>20100.0\<newline>'',
       ''pad_000_0.txt'' \<mapsto>
         ''15200.0\<newline>16200.0\<newline>17200.0\<newline>18200.0\<newline>19200.0\<newline>20200.0\<newline>'',
       ''pad_000_1.txt'' \<mapsto>
         ''15300.0\<newline>16300.0\<newline>17300.0\<newline>18300.0\<newline>19300.0\<newline>20300.0\<newline>''],
      Returns ()) \<and>
   snd (sweep 9.81 example_fmt stalled_flight Map.empty) =
     ([''pad_125_0.txt'' \<mapsto>
         ''15000.0\<newline>16000.0\<newline>17000.0\<newline>18000.0\<newline>19000.0\<newline>20000.0\<newline>'',
       ''pad_125_1.txt'' \<mapsto>
         ''15100.0\<newline>16100.0\<newline>17100.0\<newline>18100.0\<newline>19100.0\<newline>20100.0\<newline>''],
      Running)"
proof
  from sweep_logs_mean_altitude
    [where g = "9.81" and fmt = example_fmt and flights = example_flight and fs = Map.empty]
  show "snd (sweep 9.81 example_fmt example_flight Map.empty) =
     ([''pad_125_0.txt'' \<mapsto>
         ''15000.0\<newline>16000.0\<newline>17000.0\<newline>18000.0\<newline>19000.0\<newline>20000.0\<newline>'',
       ''pad_125_1.txt'' \<mapsto>
         ''15100.0\<newline>16100.0\<newline>17100.0\<newline>18100.0\<newline>19100.0\<newline>20100.0\<newline>'',
       ''pad_000_0.txt'' \<mapsto>
         ''15200.0\<newline>16200.0\<newline>17200.0\<newline>18200.0\<newline>19200.0\<newline>20200.0\<newline>'',
       ''pad_000_1.txt'' \<mapsto>
         ''15300.0\<newline>16300.0\<newline>17300.0\<newline>18300.0\<newline>19300.0\<newline>20300.0\<newline>''],
      Returns ())"
    by (simp only: example_flight_ends example_log_lines option.case)
next
  have less: "(0::nat) < 2" "(1::nat) < 2" "\<not> (2::nat) < 2"
    by simp_all
  from sweep_logs_mean_altitude
    [where g = "9.81" and fmt = example_fmt and flights = stalled_flight and fs = Map.empty]
  show "snd (sweep 9.81 example_fmt stalled_flight Map.empty) =
     ([''pad_125_0.txt'' \<mapsto>
         ''15000.0\<newline>16000.0\<newline>17000.0\<newline>18000.0\<newline>19000.0\<newline>20000.0\<newline>'',
       ''pad_125_1.txt'' \<mapsto>
         ''15100.0\<newline>16100.0\<newline>17100.0\<newline>18100.0\<newline>19100.0\<newline>20100.0\<newline>''],
      Running)"
    by (simp only: stalled_flight_ends less if_True if_False example_log_lines option.case)
qed

text \<open>
  C6, as stated (the file is opened for appending and keeps what it held), fails: a
  file that held the line \<open>12000.0\<close> holds only the new line after the write.
\<close>

theorem write_altitudes_truncates_counterexample:
  "write_altitudes (\<lambda>asc. ''15000.0'') ''pad_125'' 0 [15000]
     [''pad_125_0.txt'' \<mapsto> ''12000.0'' @ [CHR 0x0A]] ''pad_125_0.txt''
   = Some (''15000.0'' @ [CHR 0x0A])"
  by (simp add: write_altitudes_def open_w_def file_write_def str_nat.simps [of 0])

text \<open>
  C6, amended. Each pass of the sweep opens its file in write mode: what the file held
  is discarded, and the file then holds exactly the altitudes of the pass, each as
  Python prints the float, followed by a line feed; every other file is left as it was.
\<close>

theorem write_altitudes_overwrites:
  "write_altitudes fmt save i ascent_altitudes fs =
     fs(save @ ''_'' @ str_nat (i mod 2) @ ''.txt'' \<mapsto>
          concat (map (\<lambda>asc. fmt asc @ [CHR 0x0A]) ascent_altitudes))"
  by (rule write_altitudes_eq)

end
